theory Spec2Isabelle
  imports Main
begin

section \<open>Logical lvalue paths of SILGen (lib/SIL/SILGen/SILGenLValue.cpp)\<close>

text \<open>
  The file under verification lowers an lvalue expression to a path of components and
  gives each component the code that resolves it. Its functions receive the function
  generator \<open>gen\<close> by reference and emit instructions through \<open>gen.B\<close>; here the
  generator is a record that every function takes and returns. A failed \<open>assert\<close> and
  \<open>llvm_unreachable\<close> abort the compiler; here they are the \<open>Inl\<close> results, one
  constructor for each assertion of the file.
\<close>

subsection \<open>Types, values and instructions\<close>

type_synonym Qualifiers = nat

text \<open>
  Of the AST types only one distinction is read by the file: whether a type is an
  \<open>LValueType\<close> (an address type with its object type and its qualifiers) or not.
\<close>

datatype Type =
    NominalType string
  | LValueType Type Qualifiers

text \<open>\<open>Type::getRValueType()\<close>: the object type of an lvalue type, the type itself otherwise.\<close>

fun getRValueType :: "Type \<Rightarrow> Type" where
  "getRValueType (LValueType t q) = t"
| "getRValueType (NominalType n) = NominalType n"

text \<open>
  A \<open>Value\<close> is a nullable handle to what defines it: \<open>NullValue\<close> is the default
  constructed \<open>Value()\<close>, which converts to \<open>false\<close>; an \<open>Operand\<close> is a value that
  exists before this file runs (a declaration's address, a function reference, an
  rvalue); the other constructors are the instructions the builder creates, with their
  operands and their result type.
\<close>

datatype Value =
    NullValue
  | Operand string Type
  | RetainInst Value
  | ApplyInst Value "Value list" Type
  | ElementAddrInst Value nat Type

text \<open>
  \<open>Value::getType()\<close>. On a null handle the C++ dereferences a null pointer, which is
  \<open>None\<close> here; a retain has no result, and no code of the file asks for its type.
\<close>

fun getType :: "Value \<Rightarrow> Type option" where
  "getType NullValue = None"
| "getType (Operand n t) = Some t"
| "getType (RetainInst v) = None"
| "getType (ApplyInst f args t) = Some t"
| "getType (ElementAddrInst b i t) = Some t"

datatype error =
    VarNotAddress           \<comment> \<open>line 34: var component value must be an address\<close>
  | VarNotRoot              \<comment> \<open>line 40: var component must be root of lvalue path\<close>
  | ElementBaseInvalid      \<comment> \<open>line 52: invalid value for element base\<close>
  | ElementBaseNotAddress   \<comment> \<open>line 53: base for element component must be an address\<close>
  | AccessorBaseNotLValue   \<comment> \<open>line 70: base of getter/setter component must be invalid or lvalue\<close>
  | MissingGetterOrSetter   \<comment> \<open>line 91: settable lvalue must have both getter and setter\<close>
  | UnimplementedLValueExpr \<comment> \<open>line 118: unimplemented lvalue expr\<close>
  | DeclRefNotAddress       \<comment> \<open>line 139: physical lvalue decl ref must evaluate to an address\<close>
  | RequalifyNotLValue      \<comment> \<open>line 181: non-lvalue requalify in lvalue expression\<close>
  | NullDereference         \<comment> \<open>\<open>getType()\<close> called on a null \<open>Value\<close> (lines 34 and 139)\<close>
  | EmptyPath               \<comment> \<open>a path with no component reached the evaluator\<close>

subsection \<open>The function generator: emitted instructions and cleanups\<close>

datatype CleanupState = Active | Dead

record SILGenFunction =
  B :: "Value list"
  Cleanups :: "(Value \<times> CleanupState) list"

text \<open>
  Modelled from the spec: \<open>ManagedValue\<close> (ManagedValue.h is not among the sources), the
  ownership-tracked value wrapper that ``supports forward/consume (transfers ownership)
  and automatic release on scope exit if never forwarded''. It pairs a value with the
  handle of its cleanup, if it has one; the handle is the cleanup's depth in the stack.
\<close>

datatype ManagedValue = ManagedValue (getValue: Value) (getCleanup: "nat option")

text \<open>
  The flag that \<open>storeRValue\<close> and \<open>loadAndMaterialize\<close> receive (declared in LValue.h,
  not among the sources); the file never reads it.
\<close>

datatype ShouldPreserveValues = DontPreserveValues | PreserveValues

text \<open>
  Modelled from the spec: the IR builder \<open>gen.B\<close> (declared in SILGen.h, not among the
  sources), which ``emits address-arithmetic (base + field descriptor \<rightarrow> derived
  address), ownership-increment, procedure-application (callable + one argument \<rightarrow>
  result)''. Each call appends its instruction and returns it. How an application's
  result is typed is not said anywhere, so it is the parameter \<open>rty\<close>.
\<close>

definition createRetain :: "SILGenFunction \<Rightarrow> Value \<Rightarrow> SILGenFunction" where
  "createRetain gen v = gen\<lparr>B := B gen @ [RetainInst v]\<rparr>"

text \<open>
  Modelled from the spec: the application instruction that \<open>createApply\<close> creates for a
  callee and its arguments, with the result type the typing gives it.
\<close>

definition applyInst :: "(Value \<Rightarrow> Value list \<Rightarrow> Type) \<Rightarrow> Value \<Rightarrow> Value list \<Rightarrow> Value" where
  "applyInst rty fn args = ApplyInst fn args (rty fn args)"

text \<open>
  Modelled from the spec: \<open>gen.B.createApply\<close>, ``procedure-application''. The file
  passes one argument, the evaluator of a property none.
\<close>

definition createApply ::
  "(Value \<Rightarrow> Value list \<Rightarrow> Type) \<Rightarrow> SILGenFunction \<Rightarrow> Value \<Rightarrow> Value list \<Rightarrow> Value \<times> SILGenFunction" where
  "createApply rty gen fn args =
     (let r = applyInst rty fn args in (r, gen\<lparr>B := B gen @ [r]\<rparr>))"

text \<open>
  Modelled from the spec: \<open>gen.B.createElementAddr\<close>, ``address-arithmetic (base + field
  descriptor \<rightarrow> derived address)'', with the type the caller gives the address.
\<close>

definition createElementAddr ::
  "SILGenFunction \<Rightarrow> Value \<Rightarrow> nat \<Rightarrow> Type \<Rightarrow> Value \<times> SILGenFunction" where
  "createElementAddr gen base idx ty =
     (let r = ElementAddrInst base idx ty in (r, gen\<lparr>B := B gen @ [r]\<rparr>))"

text \<open>
  Modelled from the spec: \<open>SILGenFunction::emitManagedRValueWithCleanup\<close> and
  \<open>ManagedValue::forward\<close> (SILGen.h and ManagedValue.h are not among the sources). The
  first makes a value ownership-tracked, ``released at scope exit'': it pushes an active
  cleanup for the value and returns the value with the cleanup's handle. The second
  transfers ownership to the caller: it kills the cleanup, if there is one, and returns
  the bare value.
\<close>

definition emitManagedRValueWithCleanup ::
  "SILGenFunction \<Rightarrow> Value \<Rightarrow> ManagedValue \<times> SILGenFunction" where
  "emitManagedRValueWithCleanup gen v =
     (ManagedValue v (Some (length (Cleanups gen))),
      gen\<lparr>Cleanups := Cleanups gen @ [(v, Active)]\<rparr>)"

text \<open>
  Modelled from the spec: \<open>ManagedValue::forward\<close>, ``transfers ownership''.
\<close>

definition forward :: "SILGenFunction \<Rightarrow> ManagedValue \<Rightarrow> Value \<times> SILGenFunction" where
  "forward gen mv =
     (getValue mv,
      case getCleanup mv of
        None \<Rightarrow> gen
      | Some d \<Rightarrow>
          if d < length (Cleanups gen)
          then gen\<lparr>Cleanups := (Cleanups gen)[d := (fst (Cleanups gen ! d), Dead)]\<rparr>
          else gen)"

text \<open>
  Modelled from the spec: \<open>SILGenFunction::emitGetProperty\<close> (SILGen.h is not among the
  sources); ``invoking the resulting thunk with zero remaining arguments yields the
  current value'', and a load returns an ownership-tracked value.
\<close>

definition emitGetProperty ::
  "(Value \<Rightarrow> Value list \<Rightarrow> Type) \<Rightarrow> SILGenFunction \<Rightarrow> ManagedValue \<Rightarrow> ManagedValue \<times> SILGenFunction" where
  "emitGetProperty rty gen getter =
     (let (fn, gen1) = forward gen getter;
          (r, gen2) = createApply rty gen1 fn []
      in emitManagedRValueWithCleanup gen2 r)"

subsection \<open>Path components\<close>

record FragileElement =
  type :: Type
  index :: nat

record GetterSetterComponent =
  getter :: Value
  setter :: Value
  subscript :: Value

datatype PhysicalPathComponent =
    VarComponent Value
  | FragileElementComponent FragileElement

datatype PathComponent =
    Physical PhysicalPathComponent
  | Logical GetterSetterComponent

type_synonym LValue = "PathComponent list"

text \<open>The constructor of \<open>VarComponent\<close> (lines 33 to 36).\<close>

definition newVarComponent :: "Value \<Rightarrow> error + PhysicalPathComponent" where
  "newVarComponent address =
     (case getType address of
        None \<Rightarrow> Inl NullDereference
      | Some (LValueType t q) \<Rightarrow> Inr (VarComponent address)
      | Some (NominalType n) \<Rightarrow> Inl VarNotAddress)"

text \<open>
  \<open>VarComponent::offset\<close> (lines 38 to 42) and \<open>FragileElementComponent::offset\<close>
  (lines 50 to 60), the two overrides of \<open>PhysicalPathComponent::offset\<close>.
\<close>

fun offset ::
  "PhysicalPathComponent \<Rightarrow> SILGenFunction \<Rightarrow> Value \<Rightarrow> error + (Value \<times> SILGenFunction)" where
  "offset (VarComponent address) gen base =
     (if base \<noteq> NullValue then Inl VarNotRoot else Inr (address, gen))"
| "offset (FragileElementComponent element) gen base =
     (if base = NullValue then Inl ElementBaseInvalid
      else case getType base of
        Some (LValueType t quals) \<Rightarrow>
          Inr (createElementAddr gen base (index element) (LValueType (type element) quals))
      | _ \<Rightarrow> Inl ElementBaseNotAddress)"

text \<open>
  \<open>is<LValueType>()\<close> on the type of a value that is not null.
\<close>

definition isAddress :: "Value \<Rightarrow> bool" where
  "isAddress v = (case getType v of Some (LValueType t q) \<Rightarrow> True | _ \<Rightarrow> False)"

text \<open>\<open>GetterSetterComponent::partialApplyAccessor\<close> (lines 68 to 84).\<close>

definition partialApplyAccessor ::
  "(Value \<Rightarrow> Value list \<Rightarrow> Type) \<Rightarrow> GetterSetterComponent \<Rightarrow> SILGenFunction \<Rightarrow> Value \<Rightarrow> Value
     \<Rightarrow> error + (ManagedValue \<times> SILGenFunction)" where
  "partialApplyAccessor rty c gen accessor base =
     (if \<not> (base = NullValue \<or> isAddress base) then Inl AccessorBaseNotLValue
      else
        let gen1 = createRetain gen accessor;
            (appliedThis, gen2) =
              (if base \<noteq> NullValue
               then (let (r, g) = createApply rty gen1 accessor [base]
                     in emitManagedRValueWithCleanup g r)
               else (ManagedValue accessor None, gen1));
            (appliedSubscript, gen3) =
              (if subscript c \<noteq> NullValue
               then (let (fn, g) = forward gen2 appliedThis;
                         (r, g') = createApply rty g fn [subscript c]
                     in emitManagedRValueWithCleanup g' r)
               else (appliedThis, gen2))
        in Inr (appliedSubscript, gen3))"

text \<open>The constructor of \<open>GetterSetterComponent\<close> (lines 87 to 93).\<close>

definition newGetterSetterComponent ::
  "Value \<Rightarrow> Value \<Rightarrow> Value \<Rightarrow> error + GetterSetterComponent" where
  "newGetterSetterComponent g s sub =
     (if g \<noteq> NullValue \<and> s \<noteq> NullValue
      then Inr \<lparr>getter = g, setter = s, subscript = sub\<rparr>
      else Inl MissingGetterOrSetter)"

text \<open>\<open>GetterSetterComponent::storeRValue\<close> (lines 95 to 101).\<close>

definition storeRValue ::
  "(Value \<Rightarrow> Value list \<Rightarrow> Type) \<Rightarrow> GetterSetterComponent \<Rightarrow> SILGenFunction \<Rightarrow> Value \<Rightarrow> Value
     \<Rightarrow> ShouldPreserveValues \<Rightarrow> error + SILGenFunction" where
  "storeRValue rty c gen rvalue base preserve =
     (case partialApplyAccessor rty c gen (setter c) base of
        Inl e \<Rightarrow> Inl e
      | Inr (appliedSetter, gen1) \<Rightarrow>
          (let (fn, gen2) = forward gen1 appliedSetter
           in Inr (snd (createApply rty gen2 fn [rvalue]))))"

text \<open>\<open>GetterSetterComponent::loadAndMaterialize\<close> (lines 103 to 112).\<close>

definition loadAndMaterialize ::
  "(Value \<Rightarrow> Value list \<Rightarrow> Type) \<Rightarrow> GetterSetterComponent \<Rightarrow> SILGenFunction \<Rightarrow> Value
     \<Rightarrow> ShouldPreserveValues \<Rightarrow> error + (ManagedValue \<times> SILGenFunction)" where
  "loadAndMaterialize rty c gen base preserve =
     (case partialApplyAccessor rty c gen (getter c) base of
        Inl e \<Rightarrow> Inl e
      | Inr (appliedGetter, gen1) \<Rightarrow> Inr (emitGetProperty rty gen1 appliedGetter))"

subsection \<open>The expressions the visitor reads\<close>

text \<open>
  The AST headers are not among the sources. Of a declaration the file reads whether it
  is a \<open>VarDecl\<close>, its name and whether it is a property; of an expression its kind, its
  type, its sub-expression and the declaration or the field number it refers to.
  \<open>OtherExpr\<close> stands for every expression kind that \<open>SILGenLValue\<close> does not override,
  which the visitor sends to \<open>visitExpr\<close>.
\<close>

record VarDecl =
  getName :: string
  isProperty :: bool

datatype ValueDecl =
    Var VarDecl
  | NonVar string

datatype SILConstantKind = Getter | Setter

datatype SILConstant = SILConstant ValueDecl SILConstantKind

datatype Expr =
    DeclRefExpr ValueDecl Type
  | MemberRefExpr Expr VarDecl Type
  | TupleElementExpr Expr nat Type
  | AddressOfExpr Expr Type
  | ParenExpr Expr Type
  | RequalifyExpr Expr Type
  | OtherExpr Type

text \<open>\<open>Expr::getType()\<close>.\<close>

fun exprType :: "Expr \<Rightarrow> Type" where
  "exprType (DeclRefExpr d t) = t"
| "exprType (MemberRefExpr b d t) = t"
| "exprType (TupleElementExpr b n t) = t"
| "exprType (AddressOfExpr s t) = t"
| "exprType (ParenExpr s t) = t"
| "exprType (RequalifyExpr s t) = t"
| "exprType (OtherExpr t) = t"

text \<open>
  What the visitor calls outside this file is a parameter of the model: the two
  emitters of \<open>SILGenFunction\<close>, which may emit instructions and push cleanups of their
  own, and the type descriptor. A \<open>TypeInfo\<close> answers \<open>hasFragileElement\<close> and
  \<open>getFragileElement\<close> for a name: \<open>Some\<close> of the element when the type has a fragile
  element of that name, \<open>None\<close> when it has not.
\<close>

type_synonym TypeInfo = "string \<Rightarrow> FragileElement option"

record Env =
  emitConstantRef :: "SILGenFunction \<Rightarrow> Expr \<Rightarrow> SILConstant \<Rightarrow> ManagedValue \<times> SILGenFunction"
  emitReferenceToDecl :: "SILGenFunction \<Rightarrow> Expr \<Rightarrow> ValueDecl \<Rightarrow> ManagedValue \<times> SILGenFunction"
  getTypeInfo :: "Type \<Rightarrow> TypeInfo"

text \<open>
  The lines that \<open>visitDeclRefExpr\<close> (128 to 132) and \<open>visitMemberRefExpr\<close> (154 to 158)
  share: emit the references to the getter and the setter of a declaration, forward
  both, and construct the component from them, with the default (null) subscript. C++
  leaves open which of the two arguments \<open>get.forward(gen)\<close> and \<open>set.forward(gen)\<close> is
  evaluated first; the generator that results is the same (\<open>forward_commute\<close> below).
\<close>

definition addGetterSetter ::
  "Env \<Rightarrow> SILGenFunction \<Rightarrow> Expr \<Rightarrow> ValueDecl \<Rightarrow> LValue \<Rightarrow> error + (LValue \<times> SILGenFunction)" where
  "addGetterSetter env gen e decl lv =
     (let (getRef, gen1) = emitConstantRef env gen e (SILConstant decl Getter);
          (setRef, gen2) = emitConstantRef env gen1 e (SILConstant decl Setter);
          (g, gen3) = forward gen2 getRef;
          (s, gen4) = forward gen3 setRef
      in case newGetterSetterComponent g s NullValue of
           Inl err \<Rightarrow> Inl err
         | Inr c \<Rightarrow> Inr (lv @ [Logical c], gen4))"

text \<open>\<open>SILGenLValue::visitDeclRefExpr\<close> (lines 121 to 143); \<open>getUnmanagedValue\<close> reads the value.\<close>

definition visitDeclRefExpr ::
  "Env \<Rightarrow> SILGenFunction \<Rightarrow> Expr \<Rightarrow> ValueDecl \<Rightarrow> error + (LValue \<times> SILGenFunction)" where
  "visitDeclRefExpr env gen e decl =
     (if (case decl of Var var \<Rightarrow> isProperty var | NonVar n \<Rightarrow> False)
      then addGetterSetter env gen e decl []
      else
        let (mv, gen1) = emitReferenceToDecl env gen e decl;
            address = getValue mv
        in case getType address of
             None \<Rightarrow> Inl NullDereference
           | Some (NominalType n) \<Rightarrow> Inl DeclRefNotAddress
           | Some (LValueType t q) \<Rightarrow>
               (case newVarComponent address of
                  Inl err \<Rightarrow> Inl err
                | Inr c \<Rightarrow> Inr ([Physical c], gen1)))"

text \<open>
  The visitor: \<open>visitDeclRefExpr\<close>, \<open>visitMemberRefExpr\<close> (lines 145 to 162),
  \<open>visitTupleElementExpr\<close> (164 to 170), \<open>visitAddressOfExpr\<close> (172 to 174),
  \<open>visitParenExpr\<close> (176 to 178), \<open>visitRequalifyExpr\<close> (180 to 184) and \<open>visitExpr\<close>
  (116 to 119), in the order of the constructors of \<open>Expr\<close>.
\<close>

fun visit :: "Env \<Rightarrow> SILGenFunction \<Rightarrow> Expr \<Rightarrow> error + (LValue \<times> SILGenFunction)" where
  "visit env gen (DeclRefExpr decl ty) = visitDeclRefExpr env gen (DeclRefExpr decl ty) decl"
| "visit env gen (MemberRefExpr base decl ty) =
     (case visit env gen base of
        Inl err \<Rightarrow> Inl err
      | Inr (lv, gen1) \<Rightarrow>
          (case getTypeInfo env (getRValueType (exprType base)) (getName decl) of
             Some element \<Rightarrow> Inr (lv @ [Physical (FragileElementComponent element)], gen1)
           | None \<Rightarrow> addGetterSetter env gen1 (MemberRefExpr base decl ty) (Var decl) lv))"
| "visit env gen (TupleElementExpr base fieldNumber ty) =
     (case visit env gen base of
        Inl err \<Rightarrow> Inl err
      | Inr (lv, gen1) \<Rightarrow>
          Inr (lv @ [Physical (FragileElementComponent
                 \<lparr>type = getRValueType ty, index = fieldNumber\<rparr>)], gen1))"
| "visit env gen (AddressOfExpr sub ty) = visit env gen sub"
| "visit env gen (ParenExpr sub ty) = visit env gen sub"
| "visit env gen (RequalifyExpr sub ty) =
     (case ty of
        LValueType t q \<Rightarrow> visit env gen sub
      | NominalType n \<Rightarrow> Inl RequalifyNotLValue)"
| "visit env gen (OtherExpr ty) = Inl UnimplementedLValueExpr"

subsection \<open>Evaluating a path\<close>

text \<open>
  Modelled from the spec: the path evaluator (\<open>LValue\<close> and its callers are in LValue.h
  and in the expression lowering, not among the sources). ``Fold left-to-right; for
  every non-final component resolve it per its kind (address arithmetic for Physical,
  full getter invocation for Logical) to obtain the next base. For the final component:
  if Physical, its resolved address is where the caller issues a read [a write]; if
  Logical, its getter invocation's result value is the load result [invoke the setter
  end-to-end with the value as the final argument].'' The root has no predecessor, so
  the fold starts from the null base.
\<close>

fun resolve ::
  "(Value \<Rightarrow> Value list \<Rightarrow> Type) \<Rightarrow> ShouldPreserveValues \<Rightarrow> PathComponent \<Rightarrow> SILGenFunction \<Rightarrow> Value
     \<Rightarrow> error + (Value \<times> SILGenFunction)" where
  "resolve rty preserve (Physical p) gen base = offset p gen base"
| "resolve rty preserve (Logical c) gen base =
     (case loadAndMaterialize rty c gen base preserve of
        Inl err \<Rightarrow> Inl err
      | Inr (mv, gen1) \<Rightarrow> Inr (getValue mv, gen1))"

text \<open>
  Modelled from the spec: the fold of the evaluator (not among the sources), ``every
  subsequent component's base equals its predecessor's resolved result''.
\<close>

fun resolveThrough ::
  "(Value \<Rightarrow> Value list \<Rightarrow> Type) \<Rightarrow> ShouldPreserveValues \<Rightarrow> SILGenFunction \<Rightarrow> Value \<Rightarrow> LValue
     \<Rightarrow> error + (Value \<times> SILGenFunction)" where
  "resolveThrough rty preserve gen base [] = Inr (base, gen)"
| "resolveThrough rty preserve gen base (c # cs) =
     (case resolve rty preserve c gen base of
        Inl err \<Rightarrow> Inl err
      | Inr (r, gen1) \<Rightarrow> resolveThrough rty preserve gen1 r cs)"

text \<open>
  Modelled from the spec: \<open>load(path)\<close> of the evaluator (not among the sources). All
  but the last component are resolved from the null base; the last gives the address to
  read from, or the value its getter returned.
\<close>

datatype Loaded =
    ReadFrom Value          \<comment> \<open>the address where the caller issues the read\<close>
  | Result ManagedValue     \<comment> \<open>the value a getter returned\<close>

definition loadPath ::
  "(Value \<Rightarrow> Value list \<Rightarrow> Type) \<Rightarrow> ShouldPreserveValues \<Rightarrow> SILGenFunction \<Rightarrow> LValue
     \<Rightarrow> error + (Loaded \<times> SILGenFunction)" where
  "loadPath rty preserve gen path =
     (if path = [] then Inl EmptyPath
      else case resolveThrough rty preserve gen NullValue (butlast path) of
        Inl err \<Rightarrow> Inl err
      | Inr (base, gen1) \<Rightarrow>
          (case last path of
             Physical p \<Rightarrow>
               (case offset p gen1 base of
                  Inl err \<Rightarrow> Inl err
                | Inr (addr, gen2) \<Rightarrow> Inr (ReadFrom addr, gen2))
           | Logical c \<Rightarrow>
               (case loadAndMaterialize rty c gen1 base preserve of
                  Inl err \<Rightarrow> Inl err
                | Inr (mv, gen2) \<Rightarrow> Inr (Result mv, gen2))))"

text \<open>
  Modelled from the spec: \<open>store(path, value)\<close> of the evaluator (not among the sources),
  ``identical resolution through all but the final component''. Its result is the
  address the caller writes to, if the path ends in one.
\<close>

definition storePath ::
  "(Value \<Rightarrow> Value list \<Rightarrow> Type) \<Rightarrow> ShouldPreserveValues \<Rightarrow> SILGenFunction \<Rightarrow> LValue \<Rightarrow> Value
     \<Rightarrow> error + (Value option \<times> SILGenFunction)" where
  "storePath rty preserve gen path rvalue =
     (if path = [] then Inl EmptyPath
      else case resolveThrough rty preserve gen NullValue (butlast path) of
        Inl err \<Rightarrow> Inl err
      | Inr (base, gen1) \<Rightarrow>
          (case last path of
             Physical p \<Rightarrow>
               (case offset p gen1 base of
                  Inl err \<Rightarrow> Inl err
                | Inr (addr, gen2) \<Rightarrow> Inr (Some addr, gen2))
           | Logical c \<Rightarrow>
               (case storeRValue rty c gen1 rvalue base preserve of
                  Inl err \<Rightarrow> Inl err
                | Inr gen2 \<Rightarrow> Inr (None, gen2))))"

subsection \<open>Vocabulary of the theorems\<close>

text \<open>
  An optional argument as a list: empty for the null value, the value itself otherwise.
\<close>

definition present :: "Value \<Rightarrow> Value list" where
  "present v = (if v = NullValue then [] else [v])"

text \<open>
  Applying \<open>fn\<close> to arguments one at a time, as a curried procedure is applied: the
  instructions that do it, each applying the result of the one before, and the value
  that stands for \<open>fn\<close> applied to all of them.
\<close>

fun curried :: "(Value \<Rightarrow> Value list \<Rightarrow> Type) \<Rightarrow> Value \<Rightarrow> Value list \<Rightarrow> Value list" where
  "curried rty fn [] = []"
| "curried rty fn (x # xs) = applyInst rty fn [x] # curried rty (applyInst rty fn [x]) xs"

fun appliedTo :: "(Value \<Rightarrow> Value list \<Rightarrow> Type) \<Rightarrow> Value \<Rightarrow> Value list \<Rightarrow> Value" where
  "appliedTo rty fn [] = fn"
| "appliedTo rty fn (x # xs) = appliedTo rty (applyInst rty fn [x]) xs"

text \<open>
  What each kind of component demands of the base it is given: a root no base, a fragile
  element a base that is present and an address, a getter/setter pair a base that is
  absent or an address.
\<close>

fun baseAccepted :: "PathComponent \<Rightarrow> Value \<Rightarrow> bool" where
  "baseAccepted (Physical (VarComponent a)) base = (base = NullValue)"
| "baseAccepted (Physical (FragileElementComponent el)) base = (base \<noteq> NullValue \<and> isAddress base)"
| "baseAccepted (Logical c) base = (base = NullValue \<or> isAddress base)"

fun isRootComponent :: "PathComponent \<Rightarrow> bool" where
  "isRootComponent (Physical (VarComponent a)) = True"
| "isRootComponent (Physical (FragileElementComponent el)) = False"
| "isRootComponent (Logical c) = False"

text \<open>A component that may stand first: a root over an address, or a getter/setter pair.\<close>

fun isFirstComponent :: "PathComponent \<Rightarrow> bool" where
  "isFirstComponent (Physical (VarComponent a)) = isAddress a"
| "isFirstComponent (Physical (FragileElementComponent el)) = False"
| "isFirstComponent (Logical c) = True"

text \<open>Whether a component holds both of its accessors, if it is a getter/setter pair.\<close>

fun holdsBoth :: "PathComponent \<Rightarrow> bool" where
  "holdsBoth (Logical c) = (getter c \<noteq> NullValue \<and> setter c \<noteq> NullValue)"
| "holdsBoth (Physical p) = True"

subsection \<open>A small program to evaluate on\<close>

text \<open>
  A generator that has emitted nothing, a typing that gives every application the type
  \<open>Int\<close>, and collaborators for a variable \<open>a\<close> of a type \<open>S\<close> whose field \<open>b\<close> is
  fragile and whose other members are properties: references to declarations are
  addresses of \<open>S\<close>, references to accessors are unmanaged function values named after
  the declaration, and neither emitter emits anything.
\<close>

definition emptyGen :: SILGenFunction where
  "emptyGen = \<lparr>B = [], Cleanups = []\<rparr>"

definition intResult :: "Value \<Rightarrow> Value list \<Rightarrow> Type" where
  "intResult fn args = NominalType ''Int''"

fun declName :: "ValueDecl \<Rightarrow> string" where
  "declName (Var v) = getName v"
| "declName (NonVar n) = n"

fun constantName :: "SILConstant \<Rightarrow> string" where
  "constantName (SILConstant d Getter) = declName d @ ''.get''"
| "constantName (SILConstant d Setter) = declName d @ ''.set''"

definition exampleEnv :: Env where
  "exampleEnv =
     \<lparr>emitConstantRef =
        (\<lambda>gen e k. (ManagedValue (Operand (constantName k) (NominalType ''Fn'')) None, gen)),
      emitReferenceToDecl =
        (\<lambda>gen e d. (ManagedValue (Operand (declName d) (LValueType (NominalType ''S'') 0)) None, gen)),
      getTypeInfo =
        (\<lambda>t n. if t = NominalType ''S'' \<and> n = ''b''
               then Some \<lparr>type = NominalType ''T'', index = 0\<rparr> else None)\<rparr>"

definition exprA :: Expr where
  "exprA = DeclRefExpr (Var \<lparr>getName = ''a'', isProperty = False\<rparr>) (LValueType (NominalType ''S'') 0)"

definition exprAB :: Expr where
  "exprAB = MemberRefExpr exprA \<lparr>getName = ''b'', isProperty = False\<rparr> (LValueType (NominalType ''T'') 0)"

definition exprABC :: Expr where
  "exprABC = MemberRefExpr exprAB \<lparr>getName = ''c'', isProperty = True\<rparr> (LValueType (NominalType ''Int'') 0)"

definition exprP :: Expr where
  "exprP = DeclRefExpr (Var \<lparr>getName = ''p'', isProperty = True\<rparr>) (LValueType (NominalType ''Int'') 0)"

definition addrS :: Value where
  "addrS = Operand ''s'' (LValueType (NominalType ''S'') 1)"

definition rvalueS :: Value where
  "rvalueS = Operand ''s'' (NominalType ''S'')"

definition fieldInt :: FragileElement where
  "fieldInt = \<lparr>type = NominalType ''Int'', index = 2\<rparr>"

definition accessorsP :: GetterSetterComponent where
  "accessorsP = \<lparr>getter = Operand ''p.get'' (NominalType ''Fn''),
                 setter = Operand ''p.set'' (NominalType ''Fn''),
                 subscript = NullValue\<rparr>"

definition accessorsSub :: GetterSetterComponent where
  "accessorsSub = \<lparr>getter = Operand ''sub.get'' (NominalType ''Fn''),
                   setter = Operand ''sub.set'' (NominalType ''Fn''),
                   subscript = Operand ''i'' (NominalType ''Int'')\<rparr>"

definition addrA :: Value where
  "addrA = Operand ''a'' (LValueType (NominalType ''S'') 0)"

definition fieldB :: FragileElement where
  "fieldB = \<lparr>type = NominalType ''T'', index = 0\<rparr>"

definition accessorsC :: GetterSetterComponent where
  "accessorsC = \<lparr>getter = Operand ''c.get'' (NominalType ''Fn''),
                 setter = Operand ''c.set'' (NominalType ''Fn''),
                 subscript = NullValue\<rparr>"

definition pathABC :: LValue where
  "pathABC = [Physical (VarComponent addrA), Physical (FragileElementComponent fieldB),
              Logical accessorsC]"

definition accessorsQ :: GetterSetterComponent where
  "accessorsQ = \<lparr>getter = Operand ''q.get'' (NominalType ''Fn''),
                 setter = Operand ''q.set'' (NominalType ''Fn''),
                 subscript = NullValue\<rparr>"

definition exprPQ :: Expr where
  "exprPQ = MemberRefExpr exprP \<lparr>getName = ''q'', isProperty = True\<rparr> (LValueType (NominalType ''Int'') 0)"

section \<open>Auxiliary facts\<close>

lemma isAddress_not_null: "isAddress v \<Longrightarrow> v \<noteq> NullValue"
  by (auto simp: isAddress_def)

lemma forward_commute:
  "snd (forward (snd (forward gen a)) b) = snd (forward (snd (forward gen b)) a)"
  by (cases "getCleanup a"; cases "getCleanup b")
     (auto simp: forward_def list_update_swap nth_list_update)

lemma newVarComponent_Inr:
  "newVarComponent a = Inr c \<Longrightarrow> c = VarComponent a \<and> isAddress a"
  by (auto simp: newVarComponent_def isAddress_def split: option.splits Type.splits)

lemma newGetterSetterComponent_Inr:
  "newGetterSetterComponent g s sub = Inr c \<Longrightarrow>
     c = \<lparr>getter = g, setter = s, subscript = sub\<rparr> \<and> g \<noteq> NullValue \<and> s \<noteq> NullValue"
  by (auto simp: newGetterSetterComponent_def split: if_splits)

lemma addGetterSetter_Inr:
  "addGetterSetter env gen e decl lv = Inr (lv', gen') \<Longrightarrow>
     \<exists>c. lv' = lv @ [Logical c] \<and> getter c \<noteq> NullValue \<and> setter c \<noteq> NullValue \<and>
         subscript c = NullValue"
  by (auto simp: addGetterSetter_def Let_def split: prod.splits sum.splits
      dest!: newGetterSetterComponent_Inr)

lemma visitDeclRefExpr_Inr:
  "visitDeclRefExpr env gen e decl = Inr (lv, gen') \<Longrightarrow>
     \<exists>c. lv = [c] \<and> isFirstComponent c \<and> holdsBoth c"
  by (auto simp: visitDeclRefExpr_def Let_def split: prod.splits sum.splits if_splits
      option.splits Type.splits dest!: newVarComponent_Inr addGetterSetter_Inr)

text \<open>
  The shape of every path the visitor returns, by induction along its recursion: the
  declaration reference at the bottom of the expression gives the first component, and
  each member or tuple element access on the way up appends one that is not a root.
\<close>

lemma visit_shape:
  "visit env gen e = Inr (lv, gen') \<Longrightarrow>
     \<exists>c cs. lv = c # cs \<and> isFirstComponent c \<and> (\<forall>x\<in>set cs. \<not> isRootComponent x)"
proof (induction env gen e arbitrary: lv gen' rule: visit.induct)
  case (1 env gen decl ty)
  then show ?case by (auto dest!: visitDeclRefExpr_Inr)
next
  case (2 env gen base decl ty)
  then show ?case
    by (fastforce split: sum.splits prod.splits option.splits dest!: addGetterSetter_Inr)
next
  case (3 env gen base fieldNumber ty)
  then show ?case by (fastforce split: sum.splits prod.splits)
next
  case (6 env gen sub ty)
  then show ?case by (auto split: Type.splits)
qed auto

lemma visit_holdsBoth:
  "visit env gen e = Inr (lv, gen') \<Longrightarrow> \<forall>c\<in>set lv. holdsBoth c"
proof (induction env gen e arbitrary: lv gen' rule: visit.induct)
  case (1 env gen decl ty)
  then show ?case by (auto dest!: visitDeclRefExpr_Inr)
next
  case (2 env gen base decl ty)
  then show ?case
    by (fastforce split: sum.splits prod.splits option.splits dest!: addGetterSetter_Inr)
next
  case (3 env gen base fieldNumber ty)
  then show ?case by (fastforce split: sum.splits prod.splits)
next
  case (6 env gen sub ty)
  then show ?case by (auto split: Type.splits)
qed auto

text \<open>
  The accessor invoker in one equation: it fails exactly on a base that is present and
  not an address; otherwise it emits the retain and one application for each argument
  that is present, leaves every intermediate but the last with a dead cleanup, and
  returns the last one with its active cleanup (or the bare accessor, if there was
  nothing to apply).
\<close>

lemma partialApplyAccessor_Inl:
  "\<not> (base = NullValue \<or> isAddress base) \<Longrightarrow>
     partialApplyAccessor rty c gen accessor base = Inl AccessorBaseNotLValue"
  by (simp add: partialApplyAccessor_def)

lemma partialApplyAccessor_Inr:
  assumes "base = NullValue \<or> isAddress base"
  shows "partialApplyAccessor rty c gen accessor base =
     Inr (ManagedValue (appliedTo rty accessor (present base @ present (subscript c)))
            (if present base @ present (subscript c) = [] then None
             else Some (length (Cleanups gen) + length (present base @ present (subscript c)) - 1)),
          gen\<lparr>B := B gen @ RetainInst accessor #
                  curried rty accessor (present base @ present (subscript c)),
              Cleanups := Cleanups gen @
                 map (\<lambda>v. (v, Dead))
                   (butlast (curried rty accessor (present base @ present (subscript c)))) @
                 map (\<lambda>v. (v, Active))
                   (if present base @ present (subscript c) = [] then []
                    else [last (curried rty accessor (present base @ present (subscript c)))])\<rparr>)"
  using assms
  by (auto simp: partialApplyAccessor_def present_def createRetain_def createApply_def
      emitManagedRValueWithCleanup_def forward_def Let_def nth_append dest: isAddress_not_null)

text \<open>
  Store and load through a getter/setter pair in one equation each. Every intermediate
  of the invoker has been forwarded to the application that consumes it when the call
  returns; the load leaves one active cleanup, that of the value it returns.
\<close>

lemma storeRValue_Inr:
  assumes "base = NullValue \<or> isAddress base"
  shows "storeRValue rty c gen rvalue base p =
           Inr (gen\<lparr>B := B gen @ RetainInst (setter c) #
                       curried rty (setter c) (present base @ present (subscript c) @ [rvalue]),
                    Cleanups := Cleanups gen @ map (\<lambda>v. (v, Dead))
                       (curried rty (setter c) (present base @ present (subscript c)))\<rparr>)"
  using assms
  by (auto simp: storeRValue_def partialApplyAccessor_def present_def createRetain_def createApply_def
      emitManagedRValueWithCleanup_def forward_def Let_def nth_append list_update_append
      dest: isAddress_not_null)

lemma storeRValue_Inl:
  "\<not> (base = NullValue \<or> isAddress base) \<Longrightarrow>
     storeRValue rty c gen rvalue base p = Inl AccessorBaseNotLValue"
  by (simp add: storeRValue_def partialApplyAccessor_def)

lemma loadAndMaterialize_Inr:
  assumes "base = NullValue \<or> isAddress base"
  shows "loadAndMaterialize rty c gen base p =
           Inr (ManagedValue
                  (applyInst rty (appliedTo rty (getter c) (present base @ present (subscript c))) [])
                  (Some (length (Cleanups gen) + length (present base @ present (subscript c)))),
                gen\<lparr>B := B gen @ RetainInst (getter c) #
                       curried rty (getter c) (present base @ present (subscript c)) @
                       [applyInst rty (appliedTo rty (getter c) (present base @ present (subscript c))) []],
                    Cleanups := Cleanups gen @ map (\<lambda>v. (v, Dead))
                       (curried rty (getter c) (present base @ present (subscript c))) @
                       [(applyInst rty (appliedTo rty (getter c) (present base @ present (subscript c))) [],
                         Active)]\<rparr>)"
  using assms
  by (auto simp: loadAndMaterialize_def emitGetProperty_def partialApplyAccessor_def present_def
      createRetain_def createApply_def
      emitManagedRValueWithCleanup_def forward_def Let_def nth_append list_update_append
      dest: isAddress_not_null)

lemma loadAndMaterialize_Inl:
  "\<not> (base = NullValue \<or> isAddress base) \<Longrightarrow>
     loadAndMaterialize rty c gen base p = Inl AccessorBaseNotLValue"
  by (simp add: loadAndMaterialize_def partialApplyAccessor_def)

lemma length_curried: "length (curried rty fn xs) = length xs"
  by (induction xs arbitrary: fn) auto

lemma partialApplyAccessor_Inr_iff:
  "(\<exists>r. partialApplyAccessor rty c gen accessor base = Inr r) =
     (base = NullValue \<or> isAddress base)"
  by (auto simp: partialApplyAccessor_def Let_def split: prod.splits)

lemma resolve_succeeds_iff:
  "(\<exists>r. resolve rty p c gen base = Inr r) = baseAccepted c base"
proof (cases c)
  case (Physical ph)
  then show ?thesis
    by (cases ph) (auto simp: isAddress_def split: option.splits Type.splits)
next
  case (Logical l)
  have "(\<exists>r. partialApplyAccessor rty l gen (getter l) base = Inr r) =
        (base = NullValue \<or> isAddress base)"
    by (rule partialApplyAccessor_Inr_iff)
  with Logical show ?thesis
    by (auto simp: loadAndMaterialize_def split: sum.splits prod.splits)
qed

lemma resolveThrough_snoc:
  "resolveThrough rty p gen base (cs @ [c]) =
     (case resolveThrough rty p gen base cs of
        Inl err \<Rightarrow> Inl err
      | Inr (r, gen1) \<Rightarrow> resolve rty p c gen1 r)"
  by (induction cs arbitrary: gen base) (auto split: sum.splits)

text \<open>
  The construction of a getter/setter component from the two emitted references: it
  succeeds when both references are values, and then the visitor's own assertion on
  them (line 91) cannot be what stops a visit.
\<close>

lemma addGetterSetter_resolved:
  assumes "emitConstantRef env gen e (SILConstant decl Getter) = (get, gen1)"
    and "emitConstantRef env gen1 e (SILConstant decl Setter) = (setRef, gen2)"
    and "getValue get \<noteq> NullValue" and "getValue setRef \<noteq> NullValue"
  shows "addGetterSetter env gen e decl lv =
     Inr (lv @ [Logical \<lparr>getter = getValue get, setter = getValue setRef, subscript = NullValue\<rparr>],
          snd (forward (snd (forward gen2 get)) setRef))"
  using assms
  by (simp add: addGetterSetter_def Let_def newGetterSetterComponent_def forward_def
      split: prod.splits)

lemma addGetterSetter_upstream:
  assumes "\<forall>g e k. getValue (fst (emitConstantRef env g e k)) \<noteq> NullValue"
  shows "\<exists>r. addGetterSetter env gen e decl lv = Inr r"
proof -
  obtain get gen1 where 1: "emitConstantRef env gen e (SILConstant decl Getter) = (get, gen1)"
    by (cases "emitConstantRef env gen e (SILConstant decl Getter)")
  obtain setRef gen2 where 2: "emitConstantRef env gen1 e (SILConstant decl Setter) = (setRef, gen2)"
    by (cases "emitConstantRef env gen1 e (SILConstant decl Setter)")
  from assms 1 have "getValue get \<noteq> NullValue" by (metis fst_conv)
  moreover from assms 2 have "getValue setRef \<noteq> NullValue" by (metis fst_conv)
  ultimately show ?thesis using addGetterSetter_resolved [OF 1 2] by blast
qed

lemma visitDeclRefExpr_upstream:
  assumes "\<forall>g e k. getValue (fst (emitConstantRef env g e k)) \<noteq> NullValue"
  shows "visitDeclRefExpr env gen e decl \<noteq> Inl MissingGetterOrSetter"
  using addGetterSetter_upstream [OF assms, of gen e decl "[]"]
  by (auto simp: visitDeclRefExpr_def Let_def newVarComponent_def
      split: prod.splits option.splits Type.splits)

lemma visit_upstream:
  assumes "\<forall>g e k. getValue (fst (emitConstantRef env g e k)) \<noteq> NullValue"
  shows "visit env gen e \<noteq> Inl MissingGetterOrSetter"
  using assms
proof (induction env gen e rule: visit.induct)
  case (1 env gen decl ty)
  then show ?case by (simp add: visitDeclRefExpr_upstream)
next
  case (2 env gen base decl ty)
  show ?case
  proof (cases "visit env gen base")
    case (Inl err)
    with 2 show ?thesis by auto
  next
    case (Inr r)
    obtain lv gen1 where r: "r = (lv, gen1)" by (cases r)
    show ?thesis
      using Inr r addGetterSetter_upstream [OF "2.prems", of gen1 "MemberRefExpr base decl ty" "Var decl" lv]
      by (auto split: option.splits)
  qed
next
  case (3 env gen base fieldNumber ty)
  then show ?case by (auto split: sum.splits)
next
  case (6 env gen sub ty)
  then show ?case by (auto split: Type.splits)
qed auto

text \<open>
  The evaluator on a path that ends in a getter/setter component: the base the component
  receives is what resolving the components before it returns.
\<close>

lemma storePath_snoc_Logical:
  "storePath rty p g (lv @ [Logical c]) v =
     (case resolveThrough rty p g NullValue lv of
        Inl err \<Rightarrow> Inl err
      | Inr (r, g1) \<Rightarrow>
          (case storeRValue rty c g1 v r p of Inl err \<Rightarrow> Inl err | Inr g2 \<Rightarrow> Inr (None, g2)))"
  by (simp add: storePath_def split: sum.splits)

lemma loadPath_snoc_Logical:
  "loadPath rty p g (lv @ [Logical c]) =
     (case resolveThrough rty p g NullValue lv of
        Inl err \<Rightarrow> Inl err
      | Inr (r, g1) \<Rightarrow>
          (case loadAndMaterialize rty c g1 r p of
             Inl err \<Rightarrow> Inl err
           | Inr (mv, g2) \<Rightarrow> Inr (Result mv, g2)))"
  by (simp add: loadPath_def split: sum.splits)

text \<open>
  Resolving along a path. A component that may stand first accepts the null base; what
  a component of a built path returns is never null; so a component after the first
  can only fail for a base that is not an address.
\<close>

lemma baseAccepted_first: "isFirstComponent c \<Longrightarrow> baseAccepted c NullValue"
  by (cases c rule: isFirstComponent.cases) auto

lemma resolve_result_not_null:
  assumes "resolve rty p c gen base = Inr (r, gen')"
    and "isFirstComponent c \<or> \<not> isRootComponent c"
  shows "r \<noteq> NullValue"
proof (cases c rule: isFirstComponent.cases)
  case (1 a)
  with assms show ?thesis by (auto split: if_splits dest: isAddress_not_null)
next
  case (2 el)
  with assms show ?thesis
    by (auto simp: createElementAddr_def Let_def split: if_splits option.splits Type.splits)
next
  case (3 l)
  show ?thesis
  proof (cases "base = NullValue \<or> isAddress base")
    case True
    with assms 3 show ?thesis
      using loadAndMaterialize_Inr [OF True, of rty l gen p] by (auto simp: applyInst_def)
  next
    case False
    with assms 3 show ?thesis
      using loadAndMaterialize_Inl [OF False, of rty l gen p] by simp
  qed
qed

lemma resolve_later_errors:
  assumes "\<not> isRootComponent c" and "base \<noteq> NullValue"
    and "resolve rty p c gen base = Inl err"
  shows "err = ElementBaseNotAddress \<or> err = AccessorBaseNotLValue"
proof (cases c rule: isFirstComponent.cases)
  case (1 a)
  with assms show ?thesis by simp
next
  case (2 el)
  with assms show ?thesis by (auto split: if_splits option.splits Type.splits)
next
  case (3 l)
  show ?thesis
  proof (cases "base = NullValue \<or> isAddress base")
    case True
    with assms 3 show ?thesis
      using loadAndMaterialize_Inr [OF True, of rty l gen p] by auto
  next
    case False
    with assms 3 show ?thesis
      using loadAndMaterialize_Inl [OF False, of rty l gen p] by simp
  qed
qed

lemma resolveThrough_later_errors:
  assumes "\<forall>x\<in>set cs. \<not> isRootComponent x" and "base \<noteq> NullValue"
    and "resolveThrough rty p gen base cs = Inl err"
  shows "err = ElementBaseNotAddress \<or> err = AccessorBaseNotLValue"
  using assms
proof (induction cs arbitrary: gen base)
  case Nil
  then show ?case by simp
next
  case (Cons c cs)
  show ?case
  proof (cases "resolve rty p c gen base")
    case (Inl e)
    with Cons.prems show ?thesis
      using resolve_later_errors [of c base rty p gen e] by simp
  next
    case (Inr rg)
    obtain r g1 where rg: "rg = (r, g1)" by (cases rg)
    have "r \<noteq> NullValue"
      using resolve_result_not_null [of rty p c gen base r g1] Inr rg Cons.prems(1) by simp
    with Cons.IH [of r g1] Cons.prems Inr rg show ?thesis by simp
  qed
qed

section \<open>The claims\<close>

text \<open>
  C1. Every path the visitor returns has a first component, and this component resolves
  on the absent base: if it is a root, it returns its address and leaves the generator
  as it was, and it fails the assertion of line 40 on any base that is present. Every
  later component is a fragile element or a getter/setter pair, never a root, and
  resolves exactly on the bases its kind demands: a fragile element on a base that is
  present and an address, a getter/setter pair on a base that is absent or an address.
  In the evaluation of the path each component after the first receives what its
  predecessor resolved to, and the evaluation can only fail on a base that is not an
  address: a root is never given a base, and a fragile element never lacks one.
\<close>

theorem built_path_bases:
  assumes "visit env gen e = Inr (lv, gen')"
  shows "\<exists>first rest. lv = first # rest \<and>
      (\<exists>r. resolve rty p first g NullValue = Inr r) \<and>
      (\<forall>a. first = Physical (VarComponent a) \<longrightarrow>
         resolve rty p first g NullValue = Inr (a, g) \<and>
         (\<forall>b. b \<noteq> NullValue \<longrightarrow> resolve rty p first g b = Inl VarNotRoot)) \<and>
      (\<forall>c\<in>set rest. \<not> isRootComponent c \<and>
         (\<forall>g1 b. (\<exists>r. resolve rty p c g1 b = Inr r) = baseAccepted c b)) \<and>
      (\<forall>pre c post. lv = pre @ c # post \<longrightarrow>
         resolveThrough rty p g NullValue (pre @ [c]) =
           (case resolveThrough rty p g NullValue pre of
              Inl err \<Rightarrow> Inl err
            | Inr (b, g1) \<Rightarrow> resolve rty p c g1 b)) \<and>
      (\<forall>err. resolveThrough rty p g NullValue lv = Inl err \<longrightarrow>
         err = ElementBaseNotAddress \<or> err = AccessorBaseNotLValue)"
proof -
  from visit_shape [OF assms] obtain first rest where
    lv: "lv = first # rest" and first: "isFirstComponent first"
    and rest: "\<forall>x\<in>set rest. \<not> isRootComponent x"
    by blast
  have 1: "\<exists>r. resolve rty p first g NullValue = Inr r"
    using resolve_succeeds_iff [of rty p first g NullValue] baseAccepted_first [OF first]
    by blast
  have 2: "\<forall>a. first = Physical (VarComponent a) \<longrightarrow>
         resolve rty p first g NullValue = Inr (a, g) \<and>
         (\<forall>b. b \<noteq> NullValue \<longrightarrow> resolve rty p first g b = Inl VarNotRoot)"
    by simp
  have 3: "\<forall>c\<in>set rest. \<not> isRootComponent c \<and>
         (\<forall>g1 b. (\<exists>r. resolve rty p c g1 b = Inr r) = baseAccepted c b)"
    using rest resolve_succeeds_iff [of rty p] by blast
  have 4: "\<forall>pre c post. lv = pre @ c # post \<longrightarrow>
         resolveThrough rty p g NullValue (pre @ [c]) =
           (case resolveThrough rty p g NullValue pre of
              Inl err \<Rightarrow> Inl err
            | Inr (b, g1) \<Rightarrow> resolve rty p c g1 b)"
    by (simp add: resolveThrough_snoc)
  have 5: "\<forall>err. resolveThrough rty p g NullValue lv = Inl err \<longrightarrow>
         err = ElementBaseNotAddress \<or> err = AccessorBaseNotLValue"
  proof (intro allI impI)
    fix err
    assume err: "resolveThrough rty p g NullValue lv = Inl err"
    from 1 obtain r g1 where r: "resolve rty p first g NullValue = Inr (r, g1)" by force
    have "r \<noteq> NullValue"
      using resolve_result_not_null [OF r] first by simp
    then show "err = ElementBaseNotAddress \<or> err = AccessorBaseNotLValue"
      using resolveThrough_later_errors [OF rest, of r rty p g1 err] err lv r by simp
  qed
  from lv 1 2 3 4 5 show ?thesis by blast
qed

theorem built_path_bases_witness:
  "visit exampleEnv emptyGen exprABC = Inr (pathABC, emptyGen) \<and>
   resolve intResult PreserveValues (Physical (VarComponent addrA)) emptyGen NullValue =
     Inr (addrA, emptyGen) \<and>
   resolve intResult PreserveValues (Physical (VarComponent addrA)) emptyGen addrS = Inl VarNotRoot \<and>
   resolveThrough intResult PreserveValues emptyGen NullValue
       [Physical (VarComponent addrA), Physical (FragileElementComponent fieldB)] =
     resolve intResult PreserveValues (Physical (FragileElementComponent fieldB)) emptyGen addrA"
  using built_path_bases [of exampleEnv emptyGen exprABC pathABC emptyGen intResult PreserveValues emptyGen]
  by (simp add: exampleEnv_def emptyGen_def exprA_def exprAB_def exprABC_def pathABC_def addrA_def
      addrS_def fieldB_def accessorsC_def visitDeclRefExpr_def newVarComponent_def
      forward_def addGetterSetter_def newGetterSetterComponent_def)

text \<open>
  C2. On a receiver that is absent or an address, for every accessor and
  every index, the accessor invoker first retains the accessor. If the receiver is
  present it applies the accessor to it and puts the result under a cleanup; otherwise
  the first intermediate is the bare accessor. If the index is present it forwards the
  first intermediate, applies it to the index and puts the result under a cleanup;
  otherwise the second intermediate is the first. It returns the second intermediate.
  The four cases, with the instructions emitted and the cleanups pushed in each:
\<close>

theorem partialApplyAccessor_steps:
  assumes "base = NullValue \<or> isAddress base"
  shows "partialApplyAccessor rty c gen accessor base =
     (let n = length (Cleanups gen);
          this = applyInst rty accessor [base];
          sub = applyInst rty accessor [subscript c];
          thisSub = applyInst rty this [subscript c]
      in if base = NullValue \<and> subscript c = NullValue then
           Inr (ManagedValue accessor None, gen\<lparr>B := B gen @ [RetainInst accessor]\<rparr>)
         else if subscript c = NullValue then
           Inr (ManagedValue this (Some n),
                gen\<lparr>B := B gen @ [RetainInst accessor, this],
                    Cleanups := Cleanups gen @ [(this, Active)]\<rparr>)
         else if base = NullValue then
           Inr (ManagedValue sub (Some n),
                gen\<lparr>B := B gen @ [RetainInst accessor, sub],
                    Cleanups := Cleanups gen @ [(sub, Active)]\<rparr>)
         else
           Inr (ManagedValue thisSub (Some (n + 1)),
                gen\<lparr>B := B gen @ [RetainInst accessor, this, thisSub],
                    Cleanups := Cleanups gen @ [(this, Dead), (thisSub, Active)]\<rparr>))"
  using assms
  by (auto simp: partialApplyAccessor_def createRetain_def createApply_def
      emitManagedRValueWithCleanup_def forward_def Let_def nth_append dest: isAddress_not_null)

theorem partialApplyAccessor_steps_witness:
  "partialApplyAccessor intResult accessorsSub emptyGen (setter accessorsSub) addrS =
     Inr (ManagedValue
            (ApplyInst (ApplyInst (Operand ''sub.set'' (NominalType ''Fn'')) [addrS] (NominalType ''Int''))
               [Operand ''i'' (NominalType ''Int'')] (NominalType ''Int'')) (Some 1),
          \<lparr>B = [RetainInst (Operand ''sub.set'' (NominalType ''Fn'')),
                ApplyInst (Operand ''sub.set'' (NominalType ''Fn'')) [addrS] (NominalType ''Int''),
                ApplyInst (ApplyInst (Operand ''sub.set'' (NominalType ''Fn'')) [addrS] (NominalType ''Int''))
                  [Operand ''i'' (NominalType ''Int'')] (NominalType ''Int'')],
           Cleanups = [(ApplyInst (Operand ''sub.set'' (NominalType ''Fn'')) [addrS] (NominalType ''Int''), Dead),
                (ApplyInst (ApplyInst (Operand ''sub.set'' (NominalType ''Fn'')) [addrS] (NominalType ''Int''))
                  [Operand ''i'' (NominalType ''Int'')] (NominalType ''Int''), Active)]\<rparr>)"
  using partialApplyAccessor_steps [of addrS intResult accessorsSub emptyGen "setter accessorsSub"]
  by (simp add: isAddress_def addrS_def accessorsSub_def emptyGen_def intResult_def applyInst_def Let_def)

text \<open>
  On a receiver that is present and not an address the invoker retains nothing: the
  assertion of line 70 fails before the first instruction is emitted.
\<close>

theorem partialApplyAccessor_rvalue_receiver:
  "partialApplyAccessor intResult accessorsP emptyGen (getter accessorsP) rvalueS =
     Inl AccessorBaseNotLValue"
  by (simp add: partialApplyAccessor_def isAddress_def rvalueS_def)

text \<open>
  C3. For every getter/setter component and every receiver that is absent or an
  address: \<open>storeRValue\<close> emits the retain of the setter and then the setter applied,
  one argument at a time, to the receiver (if present), the index (if present) and the
  new value, in this order, and nothing else; \<open>loadAndMaterialize\<close> emits the retain of
  the getter, the getter applied to the receiver (if present) and the index (if
  present), and the invocation of the result with no argument, whose value is the value
  the load returns. On a receiver that is present and not an address both fail the
  assertion of line 70, and apply nothing.
\<close>

theorem logical_store_load_apply_once:
  "(base = NullValue \<or> isAddress base \<longrightarrow>
      (\<exists>gen'. storeRValue rty c gen rvalue base p = Inr gen' \<and>
         B gen' = B gen @ RetainInst (setter c) #
           curried rty (setter c) (present base @ present (subscript c) @ [rvalue])) \<and>
      (\<exists>mv gen'. loadAndMaterialize rty c gen base p = Inr (mv, gen') \<and>
         B gen' = B gen @ RetainInst (getter c) #
           curried rty (getter c) (present base @ present (subscript c)) @ [getValue mv] \<and>
         getValue mv =
           applyInst rty (appliedTo rty (getter c) (present base @ present (subscript c))) [])) \<and>
   (\<not> (base = NullValue \<or> isAddress base) \<longrightarrow>
      storeRValue rty c gen rvalue base p = Inl AccessorBaseNotLValue \<and>
      loadAndMaterialize rty c gen base p = Inl AccessorBaseNotLValue)"
  by (simp add: storeRValue_Inr loadAndMaterialize_Inr storeRValue_Inl loadAndMaterialize_Inl)

theorem logical_store_load_apply_once_witness:
  "(\<exists>gen'. storeRValue intResult accessorsSub emptyGen rvalueS addrS PreserveValues = Inr gen' \<and>
      B gen' =
        [RetainInst (setter accessorsSub),
         ApplyInst (setter accessorsSub) [addrS] (NominalType ''Int''),
         ApplyInst (ApplyInst (setter accessorsSub) [addrS] (NominalType ''Int''))
           [subscript accessorsSub] (NominalType ''Int''),
         ApplyInst (ApplyInst (ApplyInst (setter accessorsSub) [addrS] (NominalType ''Int''))
           [subscript accessorsSub] (NominalType ''Int'')) [rvalueS] (NominalType ''Int'')]) \<and>
   (\<exists>mv gen'. loadAndMaterialize intResult accessorsSub emptyGen addrS PreserveValues = Inr (mv, gen') \<and>
      B gen' =
        [RetainInst (getter accessorsSub),
         ApplyInst (getter accessorsSub) [addrS] (NominalType ''Int''),
         ApplyInst (ApplyInst (getter accessorsSub) [addrS] (NominalType ''Int''))
           [subscript accessorsSub] (NominalType ''Int''),
         getValue mv] \<and>
      getValue mv =
         ApplyInst (ApplyInst (ApplyInst (getter accessorsSub) [addrS] (NominalType ''Int''))
           [subscript accessorsSub] (NominalType ''Int'')) [] (NominalType ''Int'')) \<and>
   storeRValue intResult accessorsP emptyGen rvalueS rvalueS DontPreserveValues =
     Inl AccessorBaseNotLValue \<and>
   loadAndMaterialize intResult accessorsP emptyGen rvalueS DontPreserveValues =
     Inl AccessorBaseNotLValue"
  using logical_store_load_apply_once
    [of addrS intResult accessorsSub emptyGen rvalueS PreserveValues]
    logical_store_load_apply_once
    [of rvalueS intResult accessorsP emptyGen rvalueS DontPreserveValues]
  by (simp add: isAddress_def addrS_def rvalueS_def accessorsSub_def emptyGen_def intResult_def
      applyInst_def present_def)

text \<open>
  Without the condition on the receiver the statement fails, on a path the visitor
  itself returns. For \<open>p.q\<close>, with \<open>p\<close> and \<open>q\<close> both properties, the path is two
  getter/setter components; the receiver of the second is the value the getter of \<open>p\<close>
  returned, which is present and not an address, and the store through the path stops
  at the assertion of line 70 with the setter of \<open>q\<close> never applied. So do a store and a
  load of the component on such a receiver.
\<close>

theorem logical_store_load_rvalue_receiver:
  "visit exampleEnv emptyGen exprPQ = Inr ([Logical accessorsP, Logical accessorsQ], emptyGen) \<and>
   storePath intResult PreserveValues emptyGen [Logical accessorsP, Logical accessorsQ] rvalueS =
     Inl AccessorBaseNotLValue \<and>
   loadPath intResult PreserveValues emptyGen [Logical accessorsP, Logical accessorsQ] =
     Inl AccessorBaseNotLValue \<and>
   storeRValue intResult accessorsQ emptyGen rvalueS rvalueS PreserveValues =
     Inl AccessorBaseNotLValue \<and>
   loadAndMaterialize intResult accessorsQ emptyGen rvalueS PreserveValues =
     Inl AccessorBaseNotLValue"
  by (simp add: exampleEnv_def emptyGen_def exprP_def exprPQ_def accessorsP_def accessorsQ_def
      rvalueS_def intResult_def visitDeclRefExpr_def addGetterSetter_def
      newGetterSetterComponent_def forward_def storePath_def loadPath_def storeRValue_def
      loadAndMaterialize_def emitGetProperty_def partialApplyAccessor_def isAddress_def
      createRetain_def createApply_def applyInst_def emitManagedRValueWithCleanup_def Let_def)

text \<open>
  C4. A store or a load through a getter/setter component performs \<open>N\<close> partial
  applications, one for the receiver if it is present and one for the index if it is
  present. Each of their \<open>N\<close> results is put under a cleanup when it is produced and
  forwarded to the application that consumes it before the call returns: the call
  leaves the earlier cleanups as they were and pushes exactly \<open>N\<close>, all dead when it
  returns (the load pushes one more, active, for the value it hands to its caller). The
  one other exit is the failed assertion on the receiver, which precedes every
  acquisition.
\<close>

theorem accessor_intermediates_released:
  "(base = NullValue \<or> isAddress base \<longrightarrow>
      (\<exists>gen'. storeRValue rty c gen rvalue base p = Inr gen' \<and>
         Cleanups gen' = Cleanups gen @ map (\<lambda>v. (v, Dead))
           (curried rty (setter c) (present base @ present (subscript c)))) \<and>
      (\<exists>mv gen'. loadAndMaterialize rty c gen base p = Inr (mv, gen') \<and>
         Cleanups gen' = Cleanups gen @ map (\<lambda>v. (v, Dead))
           (curried rty (getter c) (present base @ present (subscript c))) @ [(getValue mv, Active)])) \<and>
   (\<not> (base = NullValue \<or> isAddress base) \<longrightarrow>
      storeRValue rty c gen rvalue base p = Inl AccessorBaseNotLValue \<and>
      loadAndMaterialize rty c gen base p = Inl AccessorBaseNotLValue) \<and>
   length (curried rty (setter c) (present base @ present (subscript c))) =
     length (present base @ present (subscript c)) \<and>
   length (curried rty (getter c) (present base @ present (subscript c))) =
     length (present base @ present (subscript c))"
  by (simp add: storeRValue_Inr loadAndMaterialize_Inr storeRValue_Inl loadAndMaterialize_Inl
      length_curried del: length_append)

theorem accessor_intermediates_released_witness:
  "(\<exists>gen'. storeRValue intResult accessorsSub emptyGen rvalueS addrS PreserveValues = Inr gen' \<and>
      Cleanups gen' =
        [(ApplyInst (setter accessorsSub) [addrS] (NominalType ''Int''), Dead),
         (ApplyInst (ApplyInst (setter accessorsSub) [addrS] (NominalType ''Int''))
           [subscript accessorsSub] (NominalType ''Int''), Dead)]) \<and>
   (\<exists>mv gen'. loadAndMaterialize intResult accessorsSub emptyGen addrS PreserveValues = Inr (mv, gen') \<and>
      Cleanups gen' =
        [(ApplyInst (getter accessorsSub) [addrS] (NominalType ''Int''), Dead),
         (ApplyInst (ApplyInst (getter accessorsSub) [addrS] (NominalType ''Int''))
           [subscript accessorsSub] (NominalType ''Int''), Dead),
         (getValue mv, Active)]) \<and>
   storeRValue intResult accessorsSub emptyGen rvalueS rvalueS PreserveValues =
     Inl AccessorBaseNotLValue \<and>
   loadAndMaterialize intResult accessorsSub emptyGen rvalueS PreserveValues =
     Inl AccessorBaseNotLValue"
  using accessor_intermediates_released
    [of addrS intResult accessorsSub emptyGen rvalueS PreserveValues]
    accessor_intermediates_released
    [of rvalueS intResult accessorsSub emptyGen rvalueS PreserveValues]
  by (simp add: isAddress_def addrS_def rvalueS_def accessorsSub_def emptyGen_def intResult_def
      applyInst_def present_def)

text \<open>
  C5. For a member access the visitor first visits the base; if that fails, so does the
  member access. Otherwise it asks the type descriptor of the base's object type for
  the member's name: with a fragile element of that name it appends a fragile element
  component carrying that element (its index and its type) to the base's path; without
  one it appends a getter/setter component holding the references emitted for the
  member's getter and setter, when both are resolved. Evaluating a path that ends in
  such a component gives the component, as its receiver, what the base's path resolved
  to.
\<close>

theorem visit_member_ref:
  "(\<forall>err. visit env gen base = Inl err \<longrightarrow>
      visit env gen (MemberRefExpr base decl ty) = Inl err) \<and>
   (\<forall>lv gen1. visit env gen base = Inr (lv, gen1) \<longrightarrow>
      (\<forall>element. getTypeInfo env (getRValueType (exprType base)) (getName decl) = Some element \<longrightarrow>
         visit env gen (MemberRefExpr base decl ty) =
           Inr (lv @ [Physical (FragileElementComponent element)], gen1)) \<and>
      (getTypeInfo env (getRValueType (exprType base)) (getName decl) = None \<longrightarrow>
         (\<forall>getRef gen2 setRef gen3.
            emitConstantRef env gen1 (MemberRefExpr base decl ty) (SILConstant (Var decl) Getter) =
              (getRef, gen2) \<and>
            emitConstantRef env gen2 (MemberRefExpr base decl ty) (SILConstant (Var decl) Setter) =
              (setRef, gen3) \<and>
            getValue getRef \<noteq> NullValue \<and> getValue setRef \<noteq> NullValue \<longrightarrow>
            visit env gen (MemberRefExpr base decl ty) =
              Inr (lv @ [Logical \<lparr>getter = getValue getRef, setter = getValue setRef,
                                   subscript = NullValue\<rparr>],
                   snd (forward (snd (forward gen3 getRef)) setRef))))) \<and>
   (\<forall>lv c g v. storePath rty p g (lv @ [Logical c]) v =
      (case resolveThrough rty p g NullValue lv of
         Inl err \<Rightarrow> Inl err
       | Inr (r, g1) \<Rightarrow>
           (case storeRValue rty c g1 v r p of Inl err \<Rightarrow> Inl err | Inr g2 \<Rightarrow> Inr (None, g2)))) \<and>
   (\<forall>lv c g. loadPath rty p g (lv @ [Logical c]) =
      (case resolveThrough rty p g NullValue lv of
         Inl err \<Rightarrow> Inl err
       | Inr (r, g1) \<Rightarrow>
           (case loadAndMaterialize rty c g1 r p of
              Inl err \<Rightarrow> Inl err
            | Inr (mv, g2) \<Rightarrow> Inr (Result mv, g2))))"
  by (simp add: storePath_snoc_Logical loadPath_snoc_Logical addGetterSetter_resolved)

theorem visit_member_ref_witness:
  "visit exampleEnv emptyGen exprAB =
     Inr ([Physical (VarComponent addrA), Physical (FragileElementComponent fieldB)], emptyGen) \<and>
   visit exampleEnv emptyGen exprABC = Inr (pathABC, emptyGen) \<and>
   storePath intResult PreserveValues emptyGen pathABC rvalueS =
     Inr (None,
          \<lparr>B = [ElementAddrInst addrA 0 (LValueType (NominalType ''T'') 0),
                RetainInst (setter accessorsC),
                ApplyInst (setter accessorsC)
                  [ElementAddrInst addrA 0 (LValueType (NominalType ''T'') 0)] (NominalType ''Int''),
                ApplyInst
                  (ApplyInst (setter accessorsC)
                     [ElementAddrInst addrA 0 (LValueType (NominalType ''T'') 0)] (NominalType ''Int''))
                  [rvalueS] (NominalType ''Int'')],
           Cleanups =
              [(ApplyInst (setter accessorsC)
                  [ElementAddrInst addrA 0 (LValueType (NominalType ''T'') 0)] (NominalType ''Int''),
                Dead)]\<rparr>)"
  using visit_member_ref [of exampleEnv emptyGen exprA "\<lparr>getName = ''b'', isProperty = False\<rparr>"
      "LValueType (NominalType ''T'') 0" intResult PreserveValues]
    visit_member_ref [of exampleEnv emptyGen exprAB "\<lparr>getName = ''c'', isProperty = True\<rparr>"
      "LValueType (NominalType ''Int'') 0" intResult PreserveValues]
  by (simp add: exampleEnv_def emptyGen_def exprA_def exprAB_def exprABC_def pathABC_def addrA_def
      fieldB_def accessorsC_def rvalueS_def intResult_def visitDeclRefExpr_def newVarComponent_def
      forward_def addGetterSetter_def newGetterSetterComponent_def storePath_def
      createElementAddr_def storeRValue_def partialApplyAccessor_def isAddress_def createRetain_def
      createApply_def applyInst_def emitManagedRValueWithCleanup_def Let_def)

text \<open>
  C6. Resolving a fragile element component on a base that is present and has an
  lvalue type \<open>LValueType t q\<close> emits one element-address instruction over the base and
  the element's index and returns it; its type is the lvalue type of the element's type
  with the qualifiers \<open>q\<close> of the base. On a null base the assertion of line 52 fails,
  and on a base that is present and not an address the assertion of line 53.
\<close>

theorem fragile_element_offset:
  "(\<forall>t q. getType base = Some (LValueType t q) \<longrightarrow>
      offset (FragileElementComponent element) gen base =
        Inr (ElementAddrInst base (index element) (LValueType (type element) q),
             gen\<lparr>B := B gen @
               [ElementAddrInst base (index element) (LValueType (type element) q)]\<rparr>)) \<and>
   (base = NullValue \<longrightarrow>
      offset (FragileElementComponent element) gen base = Inl ElementBaseInvalid) \<and>
   (base \<noteq> NullValue \<and> \<not> isAddress base \<longrightarrow>
      offset (FragileElementComponent element) gen base = Inl ElementBaseNotAddress)"
  by (auto simp: isAddress_def createElementAddr_def Let_def split: option.splits Type.splits)

theorem fragile_element_offset_witness:
  "offset (FragileElementComponent fieldInt) emptyGen addrS =
     Inr (ElementAddrInst addrS 2 (LValueType (NominalType ''Int'') 1),
          \<lparr>B = [ElementAddrInst addrS 2 (LValueType (NominalType ''Int'') 1)], Cleanups = []\<rparr>) \<and>
   offset (FragileElementComponent fieldInt) emptyGen NullValue = Inl ElementBaseInvalid \<and>
   offset (FragileElementComponent fieldInt) emptyGen rvalueS = Inl ElementBaseNotAddress"
  using fragile_element_offset [of addrS fieldInt emptyGen]
        fragile_element_offset [of NullValue fieldInt emptyGen]
        fragile_element_offset [of rvalueS fieldInt emptyGen]
  by (simp add: isAddress_def addrS_def rvalueS_def fieldInt_def emptyGen_def)

text \<open>
  C7. The visitor returns for a parenthesised expression, and for an expression under
  an address-of marker, what it returns for the expression itself: the same path (or
  the same failure) and the same generator state, with no component appended.
\<close>

theorem visit_wrappers_pass_through:
  "visit env gen (ParenExpr e ty) = visit env gen e \<and>
   visit env gen (AddressOfExpr e ty') = visit env gen e"
  by simp

text \<open>
  C8. For a reference to a property with no base, whose getter and setter references
  are resolved, the visitor returns the path of one getter/setter component holding
  them, with no subscript. Storing through this path emits the retain of the setter and
  the setter applied to the new value, and nothing else; loading emits the retain of
  the getter and the getter invoked with no argument. Neither applies a receiver.
\<close>

theorem bare_property_no_receiver:
  assumes "isProperty var"
    and "emitConstantRef env gen (DeclRefExpr (Var var) ty) (SILConstant (Var var) Getter) =
           (getRef, gen1)"
    and "emitConstantRef env gen1 (DeclRefExpr (Var var) ty) (SILConstant (Var var) Setter) =
           (setRef, gen2)"
    and "getValue getRef \<noteq> NullValue" and "getValue setRef \<noteq> NullValue"
  shows "visit env gen (DeclRefExpr (Var var) ty) =
           Inr ([Logical \<lparr>getter = getValue getRef, setter = getValue setRef, subscript = NullValue\<rparr>],
                snd (forward (snd (forward gen2 getRef)) setRef)) \<and>
         storePath rty p g
             [Logical \<lparr>getter = getValue getRef, setter = getValue setRef, subscript = NullValue\<rparr>] v =
           Inr (None,
                g\<lparr>B := B g @ [RetainInst (getValue setRef), applyInst rty (getValue setRef) [v]]\<rparr>) \<and>
         loadPath rty p g
             [Logical \<lparr>getter = getValue getRef, setter = getValue setRef, subscript = NullValue\<rparr>] =
           Inr (Result (ManagedValue (applyInst rty (getValue getRef) []) (Some (length (Cleanups g)))),
                g\<lparr>B := B g @ [RetainInst (getValue getRef), applyInst rty (getValue getRef) []],
                  Cleanups := Cleanups g @ [(applyInst rty (getValue getRef) [], Active)]\<rparr>)"
proof -
  have "visitDeclRefExpr env gen (DeclRefExpr (Var var) ty) (Var var) =
          addGetterSetter env gen (DeclRefExpr (Var var) ty) (Var var) []"
    using assms(1) by (simp add: visitDeclRefExpr_def)
  then have 1: "visit env gen (DeclRefExpr (Var var) ty) =
           Inr ([Logical \<lparr>getter = getValue getRef, setter = getValue setRef, subscript = NullValue\<rparr>],
                snd (forward (snd (forward gen2 getRef)) setRef))"
    using addGetterSetter_resolved [OF assms(2) assms(3) assms(4) assms(5), of "[]"] by simp
  have 2: "storePath rty p g
             [Logical \<lparr>getter = getValue getRef, setter = getValue setRef, subscript = NullValue\<rparr>] v =
           Inr (None,
                g\<lparr>B := B g @ [RetainInst (getValue setRef), applyInst rty (getValue setRef) [v]]\<rparr>)"
    by (simp add: storePath_def storeRValue_Inr present_def)
  have 3: "loadPath rty p g
             [Logical \<lparr>getter = getValue getRef, setter = getValue setRef, subscript = NullValue\<rparr>] =
           Inr (Result (ManagedValue (applyInst rty (getValue getRef) []) (Some (length (Cleanups g)))),
                g\<lparr>B := B g @ [RetainInst (getValue getRef), applyInst rty (getValue getRef) []],
                  Cleanups := Cleanups g @ [(applyInst rty (getValue getRef) [], Active)]\<rparr>)"
    by (simp add: loadPath_def loadAndMaterialize_Inr present_def)
  from 1 2 3 show ?thesis by simp
qed

theorem bare_property_no_receiver_witness:
  "visit exampleEnv emptyGen exprP = Inr ([Logical accessorsP], emptyGen) \<and>
   storePath intResult PreserveValues emptyGen [Logical accessorsP] rvalueS =
     Inr (None,
          \<lparr>B = [RetainInst (setter accessorsP),
                ApplyInst (setter accessorsP) [rvalueS] (NominalType ''Int'')],
           Cleanups = []\<rparr>) \<and>
   loadPath intResult PreserveValues emptyGen [Logical accessorsP] =
     Inr (Result (ManagedValue (ApplyInst (getter accessorsP) [] (NominalType ''Int'')) (Some 0)),
          \<lparr>B = [RetainInst (getter accessorsP),
                ApplyInst (getter accessorsP) [] (NominalType ''Int'')],
           Cleanups = [(ApplyInst (getter accessorsP) [] (NominalType ''Int''), Active)]\<rparr>)"
  using bare_property_no_receiver [of "\<lparr>getName = ''p'', isProperty = True\<rparr>" exampleEnv emptyGen
      "LValueType (NominalType ''Int'') 0"
      "ManagedValue (Operand ''p.get'' (NominalType ''Fn'')) None" emptyGen
      "ManagedValue (Operand ''p.set'' (NominalType ''Fn'')) None" emptyGen
      intResult PreserveValues emptyGen rvalueS]
  by (simp add: exampleEnv_def emptyGen_def exprP_def accessorsP_def forward_def intResult_def
      applyInst_def)

text \<open>
  C9. Constructing a getter/setter component with a null getter or a null setter fails
  the assertion of line 91; a component that was constructed holds both. So does every
  getter/setter component of a path the visitor returns; and when the reference emitter
  only returns values, as it does when the earlier phases are right, no visit fails
  this assertion.
\<close>

theorem getter_setter_both_mandatory:
  "(g = NullValue \<or> s = NullValue \<longrightarrow>
      newGetterSetterComponent g s sub = Inl MissingGetterOrSetter) \<and>
   (\<forall>c. newGetterSetterComponent g s sub = Inr c \<longrightarrow>
      getter c = g \<and> setter c = s \<and> subscript c = sub \<and> g \<noteq> NullValue \<and> s \<noteq> NullValue) \<and>
   (\<forall>lv gen'. visit env gen e = Inr (lv, gen') \<longrightarrow>
      (\<forall>c. Logical c \<in> set lv \<longrightarrow> getter c \<noteq> NullValue \<and> setter c \<noteq> NullValue)) \<and>
   ((\<forall>g e k. getValue (fst (emitConstantRef env g e k)) \<noteq> NullValue) \<longrightarrow>
      visit env gen e \<noteq> Inl MissingGetterOrSetter)"
proof -
  have 1: "g = NullValue \<or> s = NullValue \<longrightarrow>
      newGetterSetterComponent g s sub = Inl MissingGetterOrSetter"
    by (auto simp: newGetterSetterComponent_def)
  have 2: "\<forall>c. newGetterSetterComponent g s sub = Inr c \<longrightarrow>
      getter c = g \<and> setter c = s \<and> subscript c = sub \<and> g \<noteq> NullValue \<and> s \<noteq> NullValue"
    by (auto dest: newGetterSetterComponent_Inr)
  have 3: "\<forall>lv gen'. visit env gen e = Inr (lv, gen') \<longrightarrow>
      (\<forall>c. Logical c \<in> set lv \<longrightarrow> getter c \<noteq> NullValue \<and> setter c \<noteq> NullValue)"
    using visit_holdsBoth [of env gen e] by fastforce
  from 1 2 3 show ?thesis using visit_upstream [of env gen e] by blast
qed

theorem getter_setter_both_mandatory_witness:
  "newGetterSetterComponent NullValue (setter accessorsP) NullValue = Inl MissingGetterOrSetter \<and>
   newGetterSetterComponent (getter accessorsP) (setter accessorsP) NullValue = Inr accessorsP \<and>
   visit exampleEnv emptyGen exprP \<noteq> Inl MissingGetterOrSetter"
  using getter_setter_both_mandatory [of NullValue "setter accessorsP" NullValue exampleEnv emptyGen exprP]
    getter_setter_both_mandatory [of "getter accessorsP" "setter accessorsP" NullValue exampleEnv emptyGen exprP]
  by (simp add: accessorsP_def newGetterSetterComponent_def exampleEnv_def)

text \<open>
  C10. Neither \<open>loadAndMaterialize\<close> nor \<open>storeRValue\<close> reads its \<open>preserve\<close> argument:
  with any two values of the flag and the same other arguments, the load returns the
  same value and generator state and the store the same generator state, hence the same
  instructions (or both fail the same assertion).
\<close>

theorem preserve_flag_ignored:
  "loadAndMaterialize rty c gen base p = loadAndMaterialize rty c gen base p' \<and>
   storeRValue rty c gen rvalue base p = storeRValue rty c gen rvalue base p'"
  by (simp add: loadAndMaterialize_def storeRValue_def)

end
